theory Spec2Isabelle
  imports Main
begin

section \<open>Values, entities and the three cached shapes\<close>

text \<open>
  The client cache consistency engine of the to-do application: the three data-shape
  strategies, the registry \<^verbatim>\<open>EntityCacheManager\<close> with the field update of its hook, and
  the single-list \<^verbatim>\<open>OptimisticCacheManager\<close>.

  Field values of an entity are primitive values. The strategies compare identity values
  with the strict equality of the source (\<^verbatim>\<open>===\<close>, \<^verbatim>\<open>!==\<close>), which on the values below
  is equality of tag and content: a string is never equal to a number. Numbers are the
  integer-valued ones (identifiers and counts), on which the arithmetic and the
  comparison of the source agree with those of \<^typ>\<open>int\<close>; \<^verbatim>\<open>NaN\<close>, which is not strictly
  equal to itself, is not a value of the model.
\<close>

datatype jsval = JUndefined | JNull | JBool bool | JNum int | JStr string

text \<open>An entity is an object: a finite map from field names to values.\<close>

type_synonym entity = "string \<rightharpoonup> jsval"

text \<open>\<^verbatim>\<open>existing[idField]\<close>: reading a field that the object lacks gives \<^verbatim>\<open>undefined\<close>.\<close>

definition field :: "entity \<Rightarrow> string \<Rightarrow> jsval" where
  "field e k = (case e k of None \<Rightarrow> JUndefined | Some v \<Rightarrow> v)"

text \<open>
  \<^verbatim>\<open>enum Position { START = 'start', END = 'end' }\<close>: at run time a position is its
  string. An optional parameter is an \<open>option\<close>; \<open>None\<close> is \<^verbatim>\<open>undefined\<close>, which
  selects the default of the parameter list.
\<close>

type_synonym Position = string

definition START :: Position where
  "START = ''start''"

definition END :: Position where
  "END = ''end''"

definition positionOrDefault :: "Position option \<Rightarrow> Position" where
  "positionOrDefault position = (case position of None \<Rightarrow> START | Some p \<Rightarrow> p)"

text \<open>
  \<^verbatim>\<open>interface PaginatedData<T> { data: T[]; pagination: { total: number; [key: string]: unknown } }\<close>
  and \<^verbatim>\<open>interface SimpleListData<T> { data: T[]; [key: string]: unknown }\<close>.
  The further keys that an object may carry are the extension of the record scheme, so
  that a spread \<^verbatim>\<open>{...existingData, data: newData}\<close> is a record update, which keeps them.
\<close>

record pagination =
  total :: int

record SimpleListData =
  data :: "entity list"

record 'p PaginatedData = SimpleListData +
  pagination :: "'p pagination_scheme"

text \<open>\<^verbatim>\<open>Array.prototype.findIndex\<close>: the first index whose element satisfies the test, or -1.\<close>

fun findIndex :: "('a \<Rightarrow> bool) \<Rightarrow> 'a list \<Rightarrow> int" where
  "findIndex P [] = - 1"
| "findIndex P (x # xs) =
     (if P x then 0
      else (let i = findIndex P xs in if i < 0 then - 1 else i + 1))"

section \<open>The data-shape strategies\<close>

text \<open>
  The classes \<^verbatim>\<open>PaginatedStrategy\<close>, \<^verbatim>\<open>SimpleListStrategy\<close> and \<^verbatim>\<open>ArrayStrategy\<close>. The
  repository holds them twice, in \<^verbatim>\<open>cacheManager\<close> and in \<^verbatim>\<open>entityCacheManager\<close>, with
  the same bodies.
\<close>

subsection \<open>PaginatedStrategy\<close>

text \<open>
  Every method returns the object literal \<^verbatim>\<open>{ data: ..., pagination: ... }\<close>: a record
  with exactly these two fields, whatever further keys the argument had.
\<close>

definition PaginatedStrategy_add ::
  "('p, 'z) PaginatedData_scheme \<Rightarrow> entity \<Rightarrow> Position option \<Rightarrow> 'p PaginatedData" where
  "PaginatedStrategy_add existingData item position =
     (let newData =
        (if positionOrDefault position = START
         then item # data existingData
         else data existingData @ [item])
      in \<lparr>data = newData,
          pagination = (pagination existingData)
            \<lparr>total := total (pagination existingData) + 1\<rparr>\<rparr>)"

definition PaginatedStrategy_update ::
  "('p, 'z) PaginatedData_scheme \<Rightarrow> entity \<Rightarrow> string \<Rightarrow> 'p PaginatedData" where
  "PaginatedStrategy_update existingData item idField =
     \<lparr>data = map (\<lambda>existing.
               if field existing idField = field item idField then item else existing)
             (data existingData),
      pagination = pagination existingData\<rparr>"

definition PaginatedStrategy_remove ::
  "('p, 'z) PaginatedData_scheme \<Rightarrow> jsval \<Rightarrow> string \<Rightarrow> 'p PaginatedData" where
  "PaginatedStrategy_remove existingData ident idField =
     \<lparr>data = filter (\<lambda>item. field item idField \<noteq> ident) (data existingData),
      pagination = (pagination existingData)
        \<lparr>total := max 0 (total (pagination existingData) - 1)\<rparr>\<rparr>"

definition PaginatedStrategy_replace ::
  "('p, 'z) PaginatedData_scheme \<Rightarrow> entity list \<Rightarrow> 'p PaginatedData" where
  "PaginatedStrategy_replace existingData items =
     \<lparr>data = items,
      pagination = (pagination existingData)\<lparr>total := int (length items)\<rparr>\<rparr>"

definition PaginatedStrategy_upsert ::
  "('p, 'z) PaginatedData_scheme \<Rightarrow> entity \<Rightarrow> string \<Rightarrow> 'p PaginatedData" where
  "PaginatedStrategy_upsert existingData item idField =
     (let existingIndex =
        findIndex (\<lambda>existing. field existing idField = field item idField)
          (data existingData)
      in if existingIndex \<ge> 0
         then PaginatedStrategy_update existingData item idField
         else PaginatedStrategy_add existingData item None)"

subsection \<open>SimpleListStrategy\<close>

definition SimpleListStrategy_add ::
  "'z SimpleListData_scheme \<Rightarrow> entity \<Rightarrow> Position option \<Rightarrow> 'z SimpleListData_scheme" where
  "SimpleListStrategy_add existingData item position =
     (let newData =
        (if positionOrDefault position = START
         then item # data existingData
         else data existingData @ [item])
      in existingData\<lparr>data := newData\<rparr>)"

definition SimpleListStrategy_update ::
  "'z SimpleListData_scheme \<Rightarrow> entity \<Rightarrow> string \<Rightarrow> 'z SimpleListData_scheme" where
  "SimpleListStrategy_update existingData item idField =
     existingData\<lparr>data := map (\<lambda>existing.
         if field existing idField = field item idField then item else existing)
       (data existingData)\<rparr>"

definition SimpleListStrategy_remove ::
  "'z SimpleListData_scheme \<Rightarrow> jsval \<Rightarrow> string \<Rightarrow> 'z SimpleListData_scheme" where
  "SimpleListStrategy_remove existingData ident idField =
     existingData\<lparr>data :=
       filter (\<lambda>item. field item idField \<noteq> ident) (data existingData)\<rparr>"

definition SimpleListStrategy_replace ::
  "'z SimpleListData_scheme \<Rightarrow> entity list \<Rightarrow> 'z SimpleListData_scheme" where
  "SimpleListStrategy_replace existingData items = existingData\<lparr>data := items\<rparr>"

definition SimpleListStrategy_upsert ::
  "'z SimpleListData_scheme \<Rightarrow> entity \<Rightarrow> string \<Rightarrow> 'z SimpleListData_scheme" where
  "SimpleListStrategy_upsert existingData item idField =
     (let existingIndex =
        findIndex (\<lambda>existing. field existing idField = field item idField)
          (data existingData)
      in if existingIndex \<ge> 0
         then SimpleListStrategy_update existingData item idField
         else SimpleListStrategy_add existingData item None)"

subsection \<open>ArrayStrategy\<close>

definition ArrayStrategy_add ::
  "entity list \<Rightarrow> entity \<Rightarrow> Position option \<Rightarrow> entity list" where
  "ArrayStrategy_add existingData item position =
     (if positionOrDefault position = START
      then item # existingData
      else existingData @ [item])"

definition ArrayStrategy_update :: "entity list \<Rightarrow> entity \<Rightarrow> string \<Rightarrow> entity list" where
  "ArrayStrategy_update existingData item idField =
     map (\<lambda>existing.
            if field existing idField = field item idField then item else existing)
       existingData"

definition ArrayStrategy_remove :: "entity list \<Rightarrow> jsval \<Rightarrow> string \<Rightarrow> entity list" where
  "ArrayStrategy_remove existingData ident idField =
     filter (\<lambda>item. field item idField \<noteq> ident) existingData"

definition ArrayStrategy_replace :: "entity list \<Rightarrow> entity list \<Rightarrow> entity list" where
  "ArrayStrategy_replace existingData items = items"

definition ArrayStrategy_upsert :: "entity list \<Rightarrow> entity \<Rightarrow> string \<Rightarrow> entity list" where
  "ArrayStrategy_upsert existingData item idField =
     (let existingIndex =
        findIndex (\<lambda>existing. field existing idField = field item idField) existingData
      in if existingIndex \<ge> 0
         then ArrayStrategy_update existingData item idField
         else ArrayStrategy_add existingData item None)"


subsection \<open>Occurrence of an identity; sequences of add and remove\<close>

text \<open>Some element of the list has the identity value \<open>ident\<close> in its identity field.\<close>

definition hasIdentity :: "entity list \<Rightarrow> string \<Rightarrow> jsval \<Rightarrow> bool" where
  "hasIdentity xs idField ident = list_ex (\<lambda>e. field e idField = ident) xs"

datatype StrategyOp = AddOp entity "Position option" | RemoveOp jsval string

fun applyOp :: "'p PaginatedData \<Rightarrow> StrategyOp \<Rightarrow> 'p PaginatedData" where
  "applyOp S (AddOp item position) = PaginatedStrategy_add S item position"
| "applyOp S (RemoveOp ident idField) = PaginatedStrategy_remove S ident idField"

definition applyOps :: "'p PaginatedData \<Rightarrow> StrategyOp list \<Rightarrow> 'p PaginatedData" where
  "applyOps S ops = foldl applyOp S ops"

fun isAdd :: "StrategyOp \<Rightarrow> bool" where
  "isAdd (AddOp item position) = True"
| "isAdd (RemoveOp ident idField) = False"

definition numAdds :: "StrategyOp list \<Rightarrow> int" where
  "numAdds ops = int (length (filter isAdd ops))"

definition numRemoves :: "StrategyOp list \<Rightarrow> int" where
  "numRemoves ops = int (length (filter (\<lambda>x. \<not> isAdd x) ops))"

section \<open>The cache managers\<close>

subsection \<open>Configuration, operations, errors\<close>

text \<open>
  The enums \<^verbatim>\<open>DataStructure\<close> and \<^verbatim>\<open>EntityOperationType\<close> are string enums; a value that
  reaches the \<^verbatim>\<open>switch\<close> statements at run time is a string, which need not be one of
  the members (the hooks build configurations with a cast).
\<close>

type_synonym DataStructure = string

definition PAGINATED :: DataStructure where
  "PAGINATED = ''paginated''"

definition SIMPLE_LIST :: DataStructure where
  "SIMPLE_LIST = ''simpleList''"

definition ARRAY :: DataStructure where
  "ARRAY = ''array''"

type_synonym EntityOperationType = string

definition ADD :: EntityOperationType where
  "ADD = ''add''"

definition UPDATE :: EntityOperationType where
  "UPDATE = ''update''"

definition REMOVE :: EntityOperationType where
  "REMOVE = ''remove''"

definition REPLACE :: EntityOperationType where
  "REPLACE = ''replace''"

definition UPSERT :: EntityOperationType where
  "UPSERT = ''upsert''"

text \<open>
  \<^verbatim>\<open>interface EntityConfig\<close> (and \<^verbatim>\<open>CacheConfig\<close>, which has the same fields). The query
  document is represented by its name; an optional field is an \<open>option\<close>.
\<close>

record EntityConfig =
  query :: string
  variables :: "entity option"
  queryResultKey :: "string option"
  dataStructure :: DataStructure
  entityName :: "string option"
  idField :: "string option"

text \<open>
  \<^verbatim>\<open>interface EntityOperation<T>\<close>. The optional \<^verbatim>\<open>id\<close> is a value, \<open>JUndefined\<close> when
  the property is absent, since the code tests it both with \<^verbatim>\<open>=== undefined\<close> and for
  truthiness. (\<open>data\<close> and \<open>id\<close> are \<open>data_op\<close> and \<open>ident\<close> here.)
\<close>

record EntityOperation =
  type :: EntityOperationType
  entityKey :: string
  data_op :: "entity option"
  ident :: jsval
  items :: "entity list option"
  position :: "Position option"
  fieldUpdates :: "entity option"

text \<open>\<^verbatim>\<open>type CacheOperation<T>\<close> of \<^verbatim>\<open>cacheManager\<close>, a tagged union.\<close>

datatype CacheOperation =
  Add entity "Position option"
| Update entity
| Remove jsval
| Replace "entity list"
| Upsert entity

text \<open>What a \<^verbatim>\<open>throw\<close> carries.\<close>

datatype error =
  TypeError
| UnsupportedDataStructure string
| Thrown string

text \<open>The strategy object bound to a configuration: which class was instantiated.\<close>

datatype Strategy = PaginatedStrategy | SimpleListStrategy | ArrayStrategy

text \<open>\<^verbatim>\<open>type EntityData<T> = PaginatedData<T> | SimpleListData<T> | T[]\<close>\<close>

datatype ('p, 'z) EntityData =
  Paginated "'p PaginatedData"
| SimpleList "'z SimpleListData_scheme"
| RawArray "entity list"

text \<open>A call of a strategy method, with its arguments after \<open>existingData\<close>.\<close>

datatype StrategyCall =
  CallAdd entity "Position option"
| CallUpdate entity string
| CallRemove jsval string
| CallReplace "entity list"
| CallUpsert entity string

subsection \<open>The normalized store and the untyped run time\<close>

text \<open>
  The store is the Apollo client of the application, an external collaborator. The
  managers use five of its primitives; they are parameters here, over any type \<open>'s\<close> of
  store states and any type \<open>'r\<close> of query result objects. Each primitive either returns
  (\<open>Inr\<close>) or throws (\<open>Inl\<close>); a primitive that throws leaves the store as it was.
  \<^item> \<open>readQuery s query variables\<close>: the cached result, \<open>None\<close> for \<^verbatim>\<open>null\<close>;
  \<^item> \<open>writeQuery s query variables result\<close>: the store after the write;
  \<^item> \<open>identify s object\<close>: the cache id of the object, \<open>None\<close> for \<^verbatim>\<open>undefined\<close>;
  \<^item> \<open>evict s cacheId\<close>: the store after the eviction;
  \<^item> \<open>modify s cacheId fields\<close>: whether a record was modified, and the store after it.

  The remaining fields stand for what the code does with values whose type it asserts
  without a check:
  \<^item> \<open>resultField r key\<close> is \<^verbatim>\<open>cacheData[config.queryResultKey]\<close>, \<open>None\<close> when that is
    \<^verbatim>\<open>undefined\<close>;
  \<^item> \<open>resultAsData r\<close> is \<^verbatim>\<open>cacheData as unknown as T\<close>;
  \<^item> \<open>keyedResult key d\<close> is \<^verbatim>\<open>{ [config.queryResultKey]: data }\<close>, and \<open>dataAsResult d\<close> is
    \<^verbatim>\<open>data\<close> passed as the query result;
  \<^item> \<open>otherShape strategy call d\<close> is the outcome of a strategy method on a value \<open>d\<close> that
    has not the shape of its parameter type (\<^verbatim>\<open>existingData as EntityData<T>\<close>): a
    \<^verbatim>\<open>TypeError\<close>, or some value.
\<close>

record ('s, 'r, 'p, 'z) Apollo =
  readQuery :: "'s \<Rightarrow> string \<Rightarrow> entity option \<Rightarrow> error + 'r option"
  writeQuery :: "'s \<Rightarrow> string \<Rightarrow> entity option \<Rightarrow> 'r \<Rightarrow> error + 's"
  identify :: "'s \<Rightarrow> entity \<Rightarrow> error + string option"
  evict :: "'s \<Rightarrow> string \<Rightarrow> error + 's"
  modify :: "'s \<Rightarrow> string option \<Rightarrow> entity \<Rightarrow> error + bool \<times> 's"
  resultField :: "'r \<Rightarrow> string \<Rightarrow> ('p, 'z) EntityData option"
  resultAsData :: "'r \<Rightarrow> ('p, 'z) EntityData"
  keyedResult :: "string \<Rightarrow> ('p, 'z) EntityData \<Rightarrow> 'r"
  dataAsResult :: "('p, 'z) EntityData \<Rightarrow> 'r"
  otherShape :: "Strategy \<Rightarrow> StrategyCall \<Rightarrow> ('p, 'z) EntityData
    \<Rightarrow> error + ('p, 'z) EntityData"

text \<open>Truthiness of the values that the managers test in a condition.\<close>

fun truthy :: "jsval \<Rightarrow> bool" where
  "truthy JUndefined = False"
| "truthy JNull = False"
| "truthy (JBool b) = b"
| "truthy (JNum n) = (n \<noteq> 0)"
| "truthy (JStr s) = (s \<noteq> [])"

text \<open>An optional string that is defined and not empty (for a string, the same as truthy).\<close>

fun nonEmpty :: "string option \<Rightarrow> bool" where
  "nonEmpty None = False"
| "nonEmpty (Some s) = (s \<noteq> [])"

text \<open>\<^verbatim>\<open>{ __typename: config.entityName, [idField]: id }\<close>\<close>

definition identityObject :: "string \<Rightarrow> string \<Rightarrow> jsval \<Rightarrow> entity" where
  "identityObject typeName idf i = [''__typename'' \<mapsto> JStr typeName, idf \<mapsto> i]"

text \<open>
  A method call on the bound strategy. On a value of the strategy's own shape it is the
  method above. \<^verbatim>\<open>SimpleListStrategy\<close> reads and spreads only \<^verbatim>\<open>data\<close>, so it works on a
  paginated value as well and keeps its \<^verbatim>\<open>pagination\<close>; \<^verbatim>\<open>ArrayStrategy.replace\<close> ignores
  the existing value.
\<close>

fun paginatedCall :: "'p PaginatedData \<Rightarrow> StrategyCall \<Rightarrow> 'p PaginatedData" where
  "paginatedCall p (CallAdd item pos) = PaginatedStrategy_add p item pos"
| "paginatedCall p (CallUpdate item idf) = PaginatedStrategy_update p item idf"
| "paginatedCall p (CallRemove i idf) = PaginatedStrategy_remove p i idf"
| "paginatedCall p (CallReplace its) = PaginatedStrategy_replace p its"
| "paginatedCall p (CallUpsert item idf) = PaginatedStrategy_upsert p item idf"

fun simpleListCall :: "'z SimpleListData_scheme \<Rightarrow> StrategyCall \<Rightarrow> 'z SimpleListData_scheme" where
  "simpleListCall l (CallAdd item pos) = SimpleListStrategy_add l item pos"
| "simpleListCall l (CallUpdate item idf) = SimpleListStrategy_update l item idf"
| "simpleListCall l (CallRemove i idf) = SimpleListStrategy_remove l i idf"
| "simpleListCall l (CallReplace its) = SimpleListStrategy_replace l its"
| "simpleListCall l (CallUpsert item idf) = SimpleListStrategy_upsert l item idf"

fun arrayCall :: "entity list \<Rightarrow> StrategyCall \<Rightarrow> entity list" where
  "arrayCall xs (CallAdd item pos) = ArrayStrategy_add xs item pos"
| "arrayCall xs (CallUpdate item idf) = ArrayStrategy_update xs item idf"
| "arrayCall xs (CallRemove i idf) = ArrayStrategy_remove xs i idf"
| "arrayCall xs (CallReplace its) = ArrayStrategy_replace xs its"
| "arrayCall xs (CallUpsert item idf) = ArrayStrategy_upsert xs item idf"

definition invoke :: "('s, 'r, 'p, 'z) Apollo \<Rightarrow> Strategy \<Rightarrow> ('p, 'z) EntityData \<Rightarrow> StrategyCall
    \<Rightarrow> error + ('p, 'z) EntityData" where
  "invoke env strategy d c =
     (case strategy of
        PaginatedStrategy \<Rightarrow>
          (case d of
             Paginated p \<Rightarrow> Inr (Paginated (paginatedCall p c))
           | SimpleList l \<Rightarrow> otherShape env strategy c d
           | RawArray xs \<Rightarrow> otherShape env strategy c d)
      | SimpleListStrategy \<Rightarrow>
          (case d of
             Paginated p \<Rightarrow> Inr (Paginated (simpleListCall p c))
           | SimpleList l \<Rightarrow> Inr (SimpleList (simpleListCall l c))
           | RawArray xs \<Rightarrow> otherShape env strategy c d)
      | ArrayStrategy \<Rightarrow>
          (case d of
             RawArray xs \<Rightarrow> Inr (RawArray (arrayCall xs c))
           | Paginated p \<Rightarrow>
               (case c of CallReplace its \<Rightarrow> Inr (RawArray its)
                | CallAdd item pos \<Rightarrow> otherShape env strategy c d
                | CallUpdate item idf \<Rightarrow> otherShape env strategy c d
                | CallRemove i idf \<Rightarrow> otherShape env strategy c d
                | CallUpsert item idf \<Rightarrow> otherShape env strategy c d)
           | SimpleList l \<Rightarrow>
               (case c of CallReplace its \<Rightarrow> Inr (RawArray its)
                | CallAdd item pos \<Rightarrow> otherShape env strategy c d
                | CallUpdate item idf \<Rightarrow> otherShape env strategy c d
                | CallRemove i idf \<Rightarrow> otherShape env strategy c d
                | CallUpsert item idf \<Rightarrow> otherShape env strategy c d)))"

text \<open>
  \<^verbatim>\<open>readCacheData\<close>: the \<^verbatim>\<open>try\<close> around the read turns a throw into \<^verbatim>\<open>null\<close>. The two
  managers differ only in the test of the result (\<^verbatim>\<open>!cacheData\<close>, \<^verbatim>\<open>cacheData === null\<close>),
  which agree on an object or \<^verbatim>\<open>null\<close>.
\<close>

definition readCacheData ::
  "('s, 'r, 'p, 'z) Apollo \<Rightarrow> EntityConfig \<Rightarrow> 's \<Rightarrow> ('p, 'z) EntityData option" where
  "readCacheData env config s =
     (case readQuery env s (query config) (variables config) of
        Inl e \<Rightarrow> None
      | Inr None \<Rightarrow> None
      | Inr (Some cacheData) \<Rightarrow>
          (if nonEmpty (queryResultKey config)
           then resultField env cacheData (the (queryResultKey config))
           else Some (resultAsData env cacheData)))"

definition writeCacheData ::
  "('s, 'r, 'p, 'z) Apollo \<Rightarrow> EntityConfig \<Rightarrow> 's \<Rightarrow> ('p, 'z) EntityData \<Rightarrow> error + 's" where
  "writeCacheData env config s d =
     (let cacheData =
        (if nonEmpty (queryResultKey config)
         then keyedResult env (the (queryResultKey config)) d
         else dataAsResult env d)
      in writeQuery env s (query config) (variables config) cacheData)"

text \<open>
  A method leaves the manager in some state and either returns or throws. The body of a
  \<^verbatim>\<open>try\<close> whose handler returns \<^verbatim>\<open>false\<close>: what the body did to the state stays done.
\<close>

definition catchFalse :: "'m \<times> (error + bool) \<Rightarrow> 'm \<times> (error + bool)" where
  "catchFalse r = (case r of (m, Inl e) \<Rightarrow> (m, Inr False) | (m, Inr b) \<Rightarrow> (m, Inr b))"


subsection \<open>EntityCacheManager\<close>

text \<open>
  The state of the object: the store behind \<^verbatim>\<open>apolloClient\<close> and the two maps.
\<close>

record 's EntityCacheManager =
  apolloClient :: 's
  entities :: "string \<rightharpoonup> EntityConfig"
  strategies :: "string \<rightharpoonup> Strategy"

definition newEntityCacheManager :: "'s \<Rightarrow> 's EntityCacheManager" where
  "newEntityCacheManager s = \<lparr>apolloClient = s, entities = Map.empty, strategies = Map.empty\<rparr>"

text \<open>
  \<^verbatim>\<open>registerEntity\<close> stores the configuration first; the \<^verbatim>\<open>default\<close> branch of the
  \<^verbatim>\<open>switch\<close> throws after that, and before \<^verbatim>\<open>strategies.set\<close>.
\<close>

definition registerEntity ::
  "'s EntityCacheManager \<Rightarrow> string \<Rightarrow> EntityConfig \<Rightarrow> 's EntityCacheManager \<times> (error + unit)" where
  "registerEntity m key config =
     (let m1 = m\<lparr>entities := (entities m)(key \<mapsto> config)\<rparr>
      in if dataStructure config = PAGINATED
         then (m1\<lparr>strategies := (strategies m1)(key \<mapsto> PaginatedStrategy)\<rparr>, Inr ())
         else if dataStructure config = SIMPLE_LIST
         then (m1\<lparr>strategies := (strategies m1)(key \<mapsto> SimpleListStrategy)\<rparr>, Inr ())
         else if dataStructure config = ARRAY
         then (m1\<lparr>strategies := (strategies m1)(key \<mapsto> ArrayStrategy)\<rparr>, Inr ())
         else (m1, Inl (UnsupportedDataStructure (dataStructure config))))"

text \<open>\<^verbatim>\<open>config.idField ?? 'id'\<close>\<close>

definition idFieldOrDefault :: "EntityConfig \<Rightarrow> string" where
  "idFieldOrDefault config = (case idField config of None \<Rightarrow> ''id'' | Some f \<Rightarrow> f)"

text \<open>
  The \<^verbatim>\<open>switch\<close> of \<^verbatim>\<open>executeOperation\<close>: the strategy call that the operation selects,
  or \<open>None\<close> where the branch is \<^verbatim>\<open>return false\<close> (a missing argument, or the
  \<^verbatim>\<open>default\<close> branch).
\<close>

definition operationCall :: "EntityOperation \<Rightarrow> string \<Rightarrow> StrategyCall option" where
  "operationCall operation idf =
     (if type operation = ADD then
        (case data_op operation of None \<Rightarrow> None
         | Some item \<Rightarrow> Some (CallAdd item (position operation)))
      else if type operation = UPDATE then
        (case data_op operation of None \<Rightarrow> None
         | Some item \<Rightarrow> Some (CallUpdate item idf))
      else if type operation = REMOVE then
        (if ident operation = JUndefined then None
         else Some (CallRemove (ident operation) idf))
      else if type operation = REPLACE then
        (case items operation of None \<Rightarrow> None
         | Some its \<Rightarrow> Some (CallReplace its))
      else if type operation = UPSERT then
        (case data_op operation of None \<Rightarrow> None
         | Some item \<Rightarrow> Some (CallUpsert item idf))
      else None)"

text \<open>
  After the write of a \<^verbatim>\<open>REMOVE\<close>:
  \<^verbatim>\<open>if (operation.type === REMOVE && config.entityName && operation.id) { ... }\<close>
  with \<^verbatim>\<open>if (cacheId) evict\<close> inside.
\<close>

definition evictRemoved ::
  "('s, 'r, 'p, 'z) Apollo \<Rightarrow> EntityConfig \<Rightarrow> EntityOperation \<Rightarrow> 's \<Rightarrow> 's \<times> (error + unit)" where
  "evictRemoved env config operation s =
     (if type operation = REMOVE \<and> nonEmpty (entityName config) \<and> truthy (ident operation)
      then
        (case identify env s
                (identityObject (the (entityName config)) (idFieldOrDefault config)
                   (ident operation)) of
           Inl e \<Rightarrow> (s, Inl e)
         | Inr cacheId \<Rightarrow>
             (if nonEmpty cacheId
              then (case evict env s (the cacheId) of
                      Inl e \<Rightarrow> (s, Inl e)
                    | Inr s' \<Rightarrow> (s', Inr ()))
              else (s, Inr ())))
      else (s, Inr ()))"

text \<open>The body of the \<^verbatim>\<open>try\<close> block of \<^verbatim>\<open>executeOperation\<close>.\<close>

definition executeBody ::
  "('s, 'r, 'p, 'z) Apollo \<Rightarrow> 's EntityCacheManager \<Rightarrow> EntityOperation \<Rightarrow> EntityConfig
    \<Rightarrow> Strategy \<Rightarrow> 's EntityCacheManager \<times> (error + bool)" where
  "executeBody env m operation config strategy =
     (case readCacheData env config (apolloClient m) of
        None \<Rightarrow> (m, Inr False)
      | Some existingData \<Rightarrow>
          (case operationCall operation (idFieldOrDefault config) of
             None \<Rightarrow> (m, Inr False)
           | Some c \<Rightarrow>
               (case invoke env strategy existingData c of
                  Inl e \<Rightarrow> (m, Inl e)
                | Inr updatedData \<Rightarrow>
                    (case writeCacheData env config (apolloClient m) updatedData of
                       Inl e \<Rightarrow> (m, Inl e)
                     | Inr s1 \<Rightarrow>
                         (case evictRemoved env config operation s1 of
                            (s2, Inl e) \<Rightarrow> (m\<lparr>apolloClient := s2\<rparr>, Inl e)
                          | (s2, Inr u) \<Rightarrow> (m\<lparr>apolloClient := s2\<rparr>, Inr True))))))"

text \<open>
  \<^verbatim>\<open>async executeOperation(operation)\<close>. The result is the state of the manager after the
  call and how the promise settles: \<open>Inr b\<close> when it resolves to \<open>b\<close>, \<open>Inl e\<close> when it
  rejects.
\<close>

definition executeOperation ::
  "('s, 'r, 'p, 'z) Apollo \<Rightarrow> 's EntityCacheManager \<Rightarrow> EntityOperation
    \<Rightarrow> 's EntityCacheManager \<times> (error + bool)" where
  "executeOperation env m operation =
     (case entities m (entityKey operation) of
        None \<Rightarrow> (m, Inr False)
      | Some config \<Rightarrow>
          (case strategies m (entityKey operation) of
             None \<Rightarrow> (m, Inr False)
           | Some strategy \<Rightarrow> catchFalse (executeBody env m operation config strategy)))"

definition getCachedData ::
  "('s, 'r, 'p, 'z) Apollo \<Rightarrow> 's EntityCacheManager \<Rightarrow> string
    \<Rightarrow> 's EntityCacheManager \<times> (error + ('p, 'z) EntityData option)" where
  "getCachedData env m key =
     (case entities m key of
        None \<Rightarrow> (m, Inr None)
      | Some config \<Rightarrow> (m, Inr (readCacheData env config (apolloClient m))))"

definition destroy :: "'s EntityCacheManager \<Rightarrow> 's EntityCacheManager" where
  "destroy m = m\<lparr>entities := Map.empty, strategies := Map.empty\<rparr>"


subsection \<open>OptimisticCacheManager\<close>

record 's OptimisticCacheManager =
  cache :: 's
  config :: EntityConfig
  strategy :: Strategy

text \<open>The constructor throws on a data structure that is none of the three.\<close>

definition newOptimisticCacheManager ::
  "'s \<Rightarrow> EntityConfig \<Rightarrow> error + 's OptimisticCacheManager" where
  "newOptimisticCacheManager s cfg =
     (if dataStructure cfg = PAGINATED
      then Inr \<lparr>cache = s, config = cfg, strategy = PaginatedStrategy\<rparr>
      else if dataStructure cfg = SIMPLE_LIST
      then Inr \<lparr>cache = s, config = cfg, strategy = SimpleListStrategy\<rparr>
      else if dataStructure cfg = ARRAY
      then Inr \<lparr>cache = s, config = cfg, strategy = ArrayStrategy\<rparr>
      else Inl (UnsupportedDataStructure (dataStructure cfg)))"

text \<open>\<^verbatim>\<open>applyOperation\<close>: the strategy call of each operation type.\<close>

fun applyOperation :: "CacheOperation \<Rightarrow> string \<Rightarrow> StrategyCall" where
  "applyOperation (Add item pos) idf = CallAdd item pos"
| "applyOperation (Update item) idf = CallUpdate item idf"
| "applyOperation (Remove i) idf = CallRemove i idf"
| "applyOperation (Replace its) idf = CallReplace its"
| "applyOperation (Upsert item) idf = CallUpsert item idf"

text \<open>
  The eviction of this manager tests
  \<^verbatim>\<open>this.config.entityName !== undefined && this.config.entityName.length > 0\<close> and
  \<^verbatim>\<open>cacheId !== undefined\<close>; it has no test of the removed id.
\<close>

fun evictRemovedItem ::
  "('s, 'r, 'p, 'z) Apollo \<Rightarrow> EntityConfig \<Rightarrow> CacheOperation \<Rightarrow> 's \<Rightarrow> 's \<times> (error + unit)" where
  "evictRemovedItem env cfg (Remove i) s =
     (if nonEmpty (entityName cfg)
      then
        (case identify env s (identityObject (the (entityName cfg)) (idFieldOrDefault cfg) i) of
           Inl e \<Rightarrow> (s, Inl e)
         | Inr None \<Rightarrow> (s, Inr ())
         | Inr (Some cacheId) \<Rightarrow>
             (case evict env s cacheId of
                Inl e \<Rightarrow> (s, Inl e)
              | Inr s' \<Rightarrow> (s', Inr ())))
      else (s, Inr ()))"
| "evictRemovedItem env cfg operation s = (s, Inr ())"

definition OptimisticCacheManager_executeOperation ::
  "('s, 'r, 'p, 'z) Apollo \<Rightarrow> 's OptimisticCacheManager \<Rightarrow> CacheOperation
    \<Rightarrow> 's OptimisticCacheManager \<times> (error + bool)" where
  "OptimisticCacheManager_executeOperation env m operation =
     catchFalse
       (case readCacheData env (config m) (cache m) of
          None \<Rightarrow> (m, Inr False)
        | Some existingData \<Rightarrow>
            (case invoke env (strategy m) existingData
                    (applyOperation operation (idFieldOrDefault (config m))) of
               Inl e \<Rightarrow> (m, Inl e)
             | Inr updatedData \<Rightarrow>
                 (case writeCacheData env (config m) (cache m) updatedData of
                    Inl e \<Rightarrow> (m, Inl e)
                  | Inr s1 \<Rightarrow>
                      (case evictRemovedItem env (config m) operation s1 of
                         (s2, Inl e) \<Rightarrow> (m\<lparr>cache := s2\<rparr>, Inl e)
                       | (s2, Inr u) \<Rightarrow> (m\<lparr>cache := s2\<rparr>, Inr True)))))"



section \<open>An in-memory store and sample inputs\<close>

text \<open>
  A small store on which the definitions can be run: the cached result of each query, by
  the name of the query, and the normalized records, by cache id. A query result is an
  object of root fields, or entity data itself (what is written for a configuration with
  no result key). Cache ids are formed as \<^verbatim>\<open>Typename:id\<close> from a string or a number.
\<close>

datatype QueryResult =
  Fields "string \<rightharpoonup> (unit, unit) EntityData"
| Whole "(unit, unit) EntityData"

record Store =
  queries :: "string \<rightharpoonup> QueryResult"
  records :: "string \<rightharpoonup> entity"

function decimal :: "nat \<Rightarrow> string" where
  "decimal n =
     (if n < 10 then [''0123456789'' ! n]
      else decimal (n div 10) @ [''0123456789'' ! (n mod 10)])"
  by pat_completeness auto
termination
  by (relation "measure id") auto

definition decimalInt :: "int \<Rightarrow> string" where
  "decimalInt n = (if n < 0 then ''-'' @ decimal (nat (- n)) else decimal (nat n))"

definition storeIdentify :: "entity \<Rightarrow> string option" where
  "storeIdentify obj =
     (case obj ''__typename'' of
        Some (JStr t) \<Rightarrow>
          (case obj ''id'' of
             Some (JStr i) \<Rightarrow> Some (t @ '':'' @ i)
           | Some (JNum n) \<Rightarrow> Some (t @ '':'' @ decimalInt n)
           | _ \<Rightarrow> None)
      | _ \<Rightarrow> None)"

fun storeField :: "QueryResult \<Rightarrow> string \<Rightarrow> (unit, unit) EntityData option" where
  "storeField (Fields r) k = r k"
| "storeField (Whole d) k = None"

fun storeAsData :: "QueryResult \<Rightarrow> (unit, unit) EntityData" where
  "storeAsData (Whole d) = d"
| "storeAsData (Fields r) = RawArray []"

definition storeModify :: "Store \<Rightarrow> string option \<Rightarrow> entity \<Rightarrow> error + bool \<times> Store" where
  "storeModify s cacheId updates =
     (case cacheId of
        None \<Rightarrow> Inr (False, s)
      | Some c \<Rightarrow>
          (case records s c of
             None \<Rightarrow> Inr (False, s)
           | Some e \<Rightarrow> Inr (True, s\<lparr>records := (records s)(c \<mapsto> e ++ updates)\<rparr>)))"

definition storeApollo :: "(Store, QueryResult, unit, unit) Apollo" where
  "storeApollo =
     \<lparr>readQuery = (\<lambda>s q v. Inr (queries s q)),
      writeQuery = (\<lambda>s q v r. Inr (s\<lparr>queries := (queries s)(q \<mapsto> r)\<rparr>)),
      identify = (\<lambda>s obj. Inr (storeIdentify obj)),
      evict = (\<lambda>s c. Inr (s\<lparr>records := (records s)(c := None)\<rparr>)),
      modify = storeModify,
      resultField = storeField,
      resultAsData = storeAsData,
      keyedResult = (\<lambda>k d. Fields [k \<mapsto> d]),
      dataAsResult = Whole,
      otherShape = (\<lambda>strategy c d. Inl TypeError)\<rparr>"




text \<open>Sample entities, the configuration of the application's to-do list, and a store.\<close>

definition todo :: "string \<Rightarrow> entity" where
  "todo i = [''id'' \<mapsto> JStr i]"

definition todoN :: "int \<Rightarrow> entity" where
  "todoN n = [''id'' \<mapsto> JNum n]"

definition todosConfig :: EntityConfig where
  "todosConfig =
     \<lparr>query = ''GetTodos'', variables = None, queryResultKey = Some ''todos'',
      dataStructure = PAGINATED, entityName = Some ''Todo'', idField = Some ''id''\<rparr>"

definition page :: "entity list \<Rightarrow> int \<Rightarrow> unit PaginatedData" where
  "page xs n = \<lparr>data = xs, pagination = \<lparr>total = n\<rparr>\<rparr>"

definition sampleStore :: Store where
  "sampleStore =
     \<lparr>queries = [''GetTodos'' \<mapsto> Fields [''todos'' \<mapsto> Paginated (page [todoN 0, todoN 1] 2)]],
      records = [''Todo:0'' \<mapsto> todoN 0, ''Todo:1'' \<mapsto> todoN 1]\<rparr>"

definition sampleManager :: "Store EntityCacheManager" where
  "sampleManager =
     \<lparr>apolloClient = sampleStore,
      entities = [''todos'' \<mapsto> todosConfig],
      strategies = [''todos'' \<mapsto> PaginatedStrategy]\<rparr>"

definition sampleItemManager :: "Store OptimisticCacheManager" where
  "sampleItemManager = \<lparr>cache = sampleStore, config = todosConfig, strategy = PaginatedStrategy\<rparr>"

definition removeOperation :: "jsval \<Rightarrow> EntityOperation" where
  "removeOperation i =
     \<lparr>type = REMOVE, entityKey = ''todos'', data_op = None, ident = i, items = None,
      position = None, fieldUpdates = None\<rparr>"

definition addOperation :: "entity \<Rightarrow> EntityOperation" where
  "addOperation e =
     \<lparr>type = ADD, entityKey = ''todos'', data_op = Some e, ident = JUndefined, items = None,
      position = None, fieldUpdates = None\<rparr>"

text \<open>A configuration whose data structure is none of the three, and an unregistered key.\<close>

definition gridConfig :: EntityConfig where
  "gridConfig = todosConfig\<lparr>dataStructure := ''grid''\<rparr>"

definition usersOperation :: EntityOperation where
  "usersOperation = (addOperation (todoN 7))\<lparr>entityKey := ''users''\<rparr>"

section \<open>Properties of the strategies\<close>

lemma findIndex_lower: "- 1 \<le> findIndex P xs"
  by (induction xs) (auto simp: Let_def)

lemma findIndex_found: "0 \<le> findIndex P xs \<longleftrightarrow> list_ex P xs"
  using findIndex_lower [of P] by (induction xs) (auto simp: Let_def)

lemma findIndex_hasIdentity:
  "0 \<le> findIndex (\<lambda>existing. field existing idf = field item idf) xs
     \<longleftrightarrow> hasIdentity xs idf (field item idf)"
  by (simp add: findIndex_found hasIdentity_def)

lemma map_replace_absent:
  "\<not> hasIdentity xs idf (field item idf) \<Longrightarrow>
   map (\<lambda>existing. if field existing idf = field item idf then item else existing) xs = xs"
  by (induction xs) (auto simp: hasIdentity_def)

lemma map_replace_twice:
  "map (\<lambda>existing. if field existing idf = field item idf then item else existing)
     (map (\<lambda>existing. if field existing idf = field item idf then item else existing) xs)
   = map (\<lambda>existing. if field existing idf = field item idf then item else existing) xs"
  by (induction xs) auto

lemma hasIdentity_map_replace:
  "hasIdentity (map (\<lambda>existing. if field existing idf = field item idf then item else existing) xs)
     idf (field item idf) = hasIdentity xs idf (field item idf)"
  by (induction xs) (auto simp: hasIdentity_def)

lemma map_replace_identities:
  "map (\<lambda>e. field e idf)
     (map (\<lambda>existing. if field existing idf = field item idf then item else existing) xs)
   = map (\<lambda>e. field e idf) xs"
  by (induction xs) auto

lemma filter_absent:
  "\<not> hasIdentity xs idf i \<Longrightarrow> filter (\<lambda>item. field item idf \<noteq> i) xs = xs"
  by (induction xs) (auto simp: hasIdentity_def)

lemma filter_removes_identity: "\<not> hasIdentity (filter (\<lambda>item. field item idf \<noteq> i) xs) idf i"
  by (induction xs) (auto simp: hasIdentity_def)

lemma add_default_is_start:
  "PaginatedStrategy_add P item None = PaginatedStrategy_add P item (Some START)"
  "SimpleListStrategy_add L item None = SimpleListStrategy_add L item (Some START)"
  "ArrayStrategy_add A item None = ArrayStrategy_add A item (Some START)"
  by (simp_all add: PaginatedStrategy_add_def SimpleListStrategy_add_def ArrayStrategy_add_def
      positionOrDefault_def)

lemma PaginatedStrategy_upsert_cases:
  "PaginatedStrategy_upsert P item idf =
     (if hasIdentity (data P) idf (field item idf)
      then PaginatedStrategy_update P item idf
      else PaginatedStrategy_add P item (Some START))"
  by (simp add: PaginatedStrategy_upsert_def findIndex_hasIdentity add_default_is_start)

lemma SimpleListStrategy_upsert_cases:
  "SimpleListStrategy_upsert L item idf =
     (if hasIdentity (data L) idf (field item idf)
      then SimpleListStrategy_update L item idf
      else SimpleListStrategy_add L item (Some START))"
  by (simp add: SimpleListStrategy_upsert_def findIndex_hasIdentity add_default_is_start)

lemma ArrayStrategy_upsert_cases:
  "ArrayStrategy_upsert A item idf =
     (if hasIdentity A idf (field item idf)
      then ArrayStrategy_update A item idf
      else ArrayStrategy_add A item (Some START))"
  by (simp add: ArrayStrategy_upsert_def findIndex_hasIdentity add_default_is_start)

lemma ArrayStrategy_upsert_idem:
  "ArrayStrategy_upsert (ArrayStrategy_upsert A item idf) item idf
     = ArrayStrategy_upsert A item idf"
proof (cases "hasIdentity A idf (field item idf)")
  case True
  then show ?thesis
    by (simp add: ArrayStrategy_upsert_cases ArrayStrategy_update_def
        hasIdentity_map_replace map_replace_twice)
next
  case False
  then have "hasIdentity (item # A) idf (field item idf)"
    by (simp add: hasIdentity_def)
  with False show ?thesis
    by (simp add: ArrayStrategy_upsert_cases ArrayStrategy_update_def ArrayStrategy_add_def
        positionOrDefault_def map_replace_absent)
qed

lemma SimpleListStrategy_upsert_idem:
  "SimpleListStrategy_upsert (SimpleListStrategy_upsert L item idf) item idf
     = SimpleListStrategy_upsert L item idf"
proof (cases "hasIdentity (data L) idf (field item idf)")
  case True
  then show ?thesis
    by (simp add: SimpleListStrategy_upsert_cases SimpleListStrategy_update_def
        hasIdentity_map_replace map_replace_twice)
next
  case False
  then have "hasIdentity (item # data L) idf (field item idf)"
    by (simp add: hasIdentity_def)
  with False show ?thesis
    by (simp add: SimpleListStrategy_upsert_cases SimpleListStrategy_update_def
        SimpleListStrategy_add_def positionOrDefault_def map_replace_absent)
qed

lemma PaginatedStrategy_upsert_idem:
  "PaginatedStrategy_upsert (PaginatedStrategy_upsert P item idf) item idf
     = PaginatedStrategy_upsert P item idf"
proof (cases "hasIdentity (data P) idf (field item idf)")
  case True
  then show ?thesis
    by (simp add: PaginatedStrategy_upsert_cases PaginatedStrategy_update_def
        hasIdentity_map_replace map_replace_twice)
next
  case False
  then have "hasIdentity (item # data P) idf (field item idf)"
    by (simp add: hasIdentity_def)
  with False show ?thesis
    by (simp add: PaginatedStrategy_upsert_cases PaginatedStrategy_update_def
        PaginatedStrategy_add_def positionOrDefault_def map_replace_absent)
qed

text \<open>
  Claim C4. Upsert is idempotent for all three shapes: for every cached value, item and
  identity field, a second upsert of the same item gives the value of the first.
\<close>

theorem upsert_idempotent:
  "PaginatedStrategy_upsert (PaginatedStrategy_upsert P item idf) item idf
     = PaginatedStrategy_upsert P item idf
   \<and> SimpleListStrategy_upsert (SimpleListStrategy_upsert L item idf) item idf
     = SimpleListStrategy_upsert L item idf
   \<and> ArrayStrategy_upsert (ArrayStrategy_upsert A item idf) item idf
     = ArrayStrategy_upsert A item idf"
  by (simp only: PaginatedStrategy_upsert_idem SimpleListStrategy_upsert_idem
      ArrayStrategy_upsert_idem)

text \<open>
  Claim C7. For the paginated shape, \<open>replace\<close> returns a value whose \<open>data\<close> is the given
  list and whose \<open>pagination.total\<close> is the length of that list, for every prior value.
\<close>

theorem replace_resets_total:
  "data (PaginatedStrategy_replace P its) = its
   \<and> total (pagination (PaginatedStrategy_replace P its)) = int (length its)"
  by (simp add: PaginatedStrategy_replace_def)

text \<open>
  Claim C9. For the paginated shape, \<open>remove\<close> filters out every element whose identity
  equals the given one, so that none is left, however many there were; and it decrements
  \<open>pagination.total\<close> by exactly 1, floored at 0, whatever the number of elements removed
  (the number of elements removed is the number of matching elements).
\<close>

theorem paginated_remove_decrements_once:
  "data (PaginatedStrategy_remove P i idf) = filter (\<lambda>e. field e idf \<noteq> i) (data P)
   \<and> \<not> hasIdentity (data (PaginatedStrategy_remove P i idf)) idf i
   \<and> length (data (PaginatedStrategy_remove P i idf))
       + length (filter (\<lambda>e. field e idf = i) (data P)) = length (data P)
   \<and> total (pagination (PaginatedStrategy_remove P i idf))
       = max 0 (total (pagination P) - 1)"
  using sum_length_filter_compl [of "\<lambda>e. field e idf = i" "data P"]
  by (simp add: PaginatedStrategy_remove_def filter_removes_identity add.commute)

text \<open>
  Claim C6. For every shape, \<open>upsert\<close> equals \<open>update\<close> when the identity of the item
  occurs in the data (the length of the data and the identities in it are then
  unchanged), and equals \<open>add\<close> at the start position when it does not occur.
\<close>

theorem upsert_delegates:
  "(hasIdentity (data P) idf (field item idf) \<longrightarrow>
      PaginatedStrategy_upsert P item idf = PaginatedStrategy_update P item idf
      \<and> length (data (PaginatedStrategy_upsert P item idf)) = length (data P)
      \<and> map (\<lambda>e. field e idf) (data (PaginatedStrategy_upsert P item idf))
          = map (\<lambda>e. field e idf) (data P))
   \<and> (\<not> hasIdentity (data P) idf (field item idf) \<longrightarrow>
      PaginatedStrategy_upsert P item idf = PaginatedStrategy_add P item (Some START))
   \<and> (hasIdentity (data L) idf (field item idf) \<longrightarrow>
      SimpleListStrategy_upsert L item idf = SimpleListStrategy_update L item idf
      \<and> length (data (SimpleListStrategy_upsert L item idf)) = length (data L)
      \<and> map (\<lambda>e. field e idf) (data (SimpleListStrategy_upsert L item idf))
          = map (\<lambda>e. field e idf) (data L))
   \<and> (\<not> hasIdentity (data L) idf (field item idf) \<longrightarrow>
      SimpleListStrategy_upsert L item idf = SimpleListStrategy_add L item (Some START))
   \<and> (hasIdentity A idf (field item idf) \<longrightarrow>
      ArrayStrategy_upsert A item idf = ArrayStrategy_update A item idf
      \<and> length (ArrayStrategy_upsert A item idf) = length A
      \<and> map (\<lambda>e. field e idf) (ArrayStrategy_upsert A item idf) = map (\<lambda>e. field e idf) A)
   \<and> (\<not> hasIdentity A idf (field item idf) \<longrightarrow>
      ArrayStrategy_upsert A item idf = ArrayStrategy_add A item (Some START))"
  by (simp add: PaginatedStrategy_upsert_cases SimpleListStrategy_upsert_cases
      ArrayStrategy_upsert_cases PaginatedStrategy_update_def SimpleListStrategy_update_def
      ArrayStrategy_update_def map_replace_identities)

theorem upsert_delegates_witness:
  "hasIdentity (data (page [todo ''1'', todo ''2''] 2)) ''id'' (field (todo ''2'') ''id'')
   \<and> PaginatedStrategy_upsert (page [todo ''1'', todo ''2''] 2) (todo ''2'') ''id''
       = PaginatedStrategy_update (page [todo ''1'', todo ''2''] 2) (todo ''2'') ''id''
   \<and> length (data (PaginatedStrategy_upsert (page [todo ''1'', todo ''2''] 2) (todo ''2'') ''id''))
       = length (data (page [todo ''1'', todo ''2''] 2))
   \<and> \<not> hasIdentity (data \<lparr>data = [todo ''1'']\<rparr>) ''id'' (field (todo ''2'') ''id'')
   \<and> SimpleListStrategy_upsert \<lparr>data = [todo ''1'']\<rparr> (todo ''2'') ''id''
       = SimpleListStrategy_add \<lparr>data = [todo ''1'']\<rparr> (todo ''2'') (Some START)
   \<and> hasIdentity [todo ''2'', todo ''3''] ''id'' (field (todo ''2'') ''id'')
   \<and> ArrayStrategy_upsert [todo ''2'', todo ''3''] (todo ''2'') ''id''
       = ArrayStrategy_update [todo ''2'', todo ''3''] (todo ''2'') ''id''"
proof -
  have h1: "hasIdentity (data (page [todo ''1'', todo ''2''] 2)) ''id'' (field (todo ''2'') ''id'')"
    by (simp add: hasIdentity_def page_def todo_def field_def)
  have h2: "\<not> hasIdentity (data \<lparr>data = [todo ''1'']\<rparr>) ''id'' (field (todo ''2'') ''id'')"
    by (simp add: hasIdentity_def todo_def field_def)
  have h3: "hasIdentity [todo ''2'', todo ''3''] ''id'' (field (todo ''2'') ''id'')"
    by (simp add: hasIdentity_def todo_def field_def)
  from h1 h2 h3
    upsert_delegates [of "page [todo ''1'', todo ''2''] 2" "''id''" "todo ''2''"
      "\<lparr>data = [todo ''1'']\<rparr>" "[todo ''2'', todo ''3'']"]
  show ?thesis by blast
qed

lemma nth_map_replace:
  "k < length xs \<Longrightarrow>
   map (\<lambda>existing. if field existing idf = field item idf then item else existing) xs ! k
     = (if field (xs ! k) idf = field item idf then item else xs ! k)"
  by simp

text \<open>
  Claim C8. For every shape, \<open>update\<close> puts the item in place of exactly the elements
  whose identity equals that of the item and keeps every other element where it is; when
  no element matches, the data are unchanged. For the paginated shape the pagination
  object is unchanged, for the simple list the further keys are.
\<close>

theorem update_replaces_matching:
  "length (data (PaginatedStrategy_update P item idf)) = length (data P)
   \<and> (\<forall>k < length (data P).
        data (PaginatedStrategy_update P item idf) ! k
          = (if field (data P ! k) idf = field item idf then item else data P ! k))
   \<and> pagination (PaginatedStrategy_update P item idf) = pagination P
   \<and> (\<not> hasIdentity (data P) idf (field item idf) \<longrightarrow>
        data (PaginatedStrategy_update P item idf) = data P)
   \<and> length (data (SimpleListStrategy_update L item idf)) = length (data L)
   \<and> (\<forall>k < length (data L).
        data (SimpleListStrategy_update L item idf) ! k
          = (if field (data L ! k) idf = field item idf then item else data L ! k))
   \<and> SimpleListData.more (SimpleListStrategy_update L item idf) = SimpleListData.more L
   \<and> (\<not> hasIdentity (data L) idf (field item idf) \<longrightarrow>
        SimpleListStrategy_update L item idf = L)
   \<and> length (ArrayStrategy_update A item idf) = length A
   \<and> (\<forall>k < length A.
        ArrayStrategy_update A item idf ! k
          = (if field (A ! k) idf = field item idf then item else A ! k))
   \<and> (\<not> hasIdentity A idf (field item idf) \<longrightarrow> ArrayStrategy_update A item idf = A)"
  by (simp add: PaginatedStrategy_update_def SimpleListStrategy_update_def
      ArrayStrategy_update_def map_replace_absent)

theorem update_replaces_matching_witness:
  "(1::nat) < length (data (page [todo ''1'', todo ''2''] 2))
   \<and> data (PaginatedStrategy_update (page [todo ''1'', todo ''2''] 2)
        [''id'' \<mapsto> JStr ''2'', ''title'' \<mapsto> JStr ''x''] ''id'') ! 1
       = [''id'' \<mapsto> JStr ''2'', ''title'' \<mapsto> JStr ''x'']
   \<and> data (PaginatedStrategy_update (page [todo ''1'', todo ''2''] 2)
        [''id'' \<mapsto> JStr ''2'', ''title'' \<mapsto> JStr ''x''] ''id'') ! 0 = todo ''1''
   \<and> \<not> hasIdentity (data \<lparr>data = [todo ''1'']\<rparr>) ''id''
         (field [''id'' \<mapsto> JStr ''2'', ''title'' \<mapsto> JStr ''x''] ''id'')
   \<and> SimpleListStrategy_update \<lparr>data = [todo ''1'']\<rparr>
        [''id'' \<mapsto> JStr ''2'', ''title'' \<mapsto> JStr ''x''] ''id'' = \<lparr>data = [todo ''1'']\<rparr>
   \<and> \<not> hasIdentity [todo ''3''] ''id''
         (field [''id'' \<mapsto> JStr ''2'', ''title'' \<mapsto> JStr ''x''] ''id'')
   \<and> ArrayStrategy_update [todo ''3''] [''id'' \<mapsto> JStr ''2'', ''title'' \<mapsto> JStr ''x''] ''id''
       = [todo ''3'']"
proof -
  have len: "(1::nat) < length (data (page [todo ''1'', todo ''2''] 2))"
    and len0: "(0::nat) < length (data (page [todo ''1'', todo ''2''] 2))"
    by (simp_all add: page_def)
  have e1: "(if field (data (page [todo ''1'', todo ''2''] 2) ! 1) ''id''
                = field [''id'' \<mapsto> JStr ''2'', ''title'' \<mapsto> JStr ''x''] ''id''
             then [''id'' \<mapsto> JStr ''2'', ''title'' \<mapsto> JStr ''x'']
             else data (page [todo ''1'', todo ''2''] 2) ! 1)
            = [''id'' \<mapsto> JStr ''2'', ''title'' \<mapsto> JStr ''x'']"
    by (simp add: page_def todo_def field_def)
  have e0: "(if field (data (page [todo ''1'', todo ''2''] 2) ! 0) ''id''
                = field [''id'' \<mapsto> JStr ''2'', ''title'' \<mapsto> JStr ''x''] ''id''
             then [''id'' \<mapsto> JStr ''2'', ''title'' \<mapsto> JStr ''x'']
             else data (page [todo ''1'', todo ''2''] 2) ! 0)
            = todo ''1''"
    by (simp add: page_def todo_def field_def)
  have h2: "\<not> hasIdentity (data \<lparr>data = [todo ''1'']\<rparr>) ''id''
         (field [''id'' \<mapsto> JStr ''2'', ''title'' \<mapsto> JStr ''x''] ''id'')"
    by (simp add: hasIdentity_def todo_def field_def)
  have h3: "\<not> hasIdentity [todo ''3''] ''id''
         (field [''id'' \<mapsto> JStr ''2'', ''title'' \<mapsto> JStr ''x''] ''id'')"
    by (simp add: hasIdentity_def todo_def field_def)
  from len len0 e1 e0 h2 h3
    update_replaces_matching [of "page [todo ''1'', todo ''2''] 2"
      "[''id'' \<mapsto> JStr ''2'', ''title'' \<mapsto> JStr ''x'']" "''id''"
      "\<lparr>data = [todo ''1'']\<rparr>" "[todo ''3'']"]
  show ?thesis by metis
qed

subsection \<open>The total of a paginated cache\<close>

lemma applyOp_total:
  "total (pagination (applyOp S x))
     = (if isAdd x then total (pagination S) + 1 else max 0 (total (pagination S) - 1))"
  by (cases x) (simp_all add: PaginatedStrategy_add_def PaginatedStrategy_remove_def Let_def)

lemma applyOps_Cons: "applyOps S (x # xs) = applyOps (applyOp S x) xs"
  by (simp add: applyOps_def)

lemma numAdds_Cons: "numAdds (x # xs) = (if isAdd x then 1 else 0) + numAdds xs"
  by (simp add: numAdds_def)

lemma numRemoves_Cons: "numRemoves (x # xs) = (if isAdd x then 0 else 1) + numRemoves xs"
  by (simp add: numRemoves_def)

lemma numRemoves_nonneg: "0 \<le> numRemoves xs"
  by (simp add: numRemoves_def)

lemma applyOps_total_exact:
  "numRemoves ops \<le> total (pagination S) \<Longrightarrow>
   total (pagination (applyOps S ops)) = total (pagination S) + numAdds ops - numRemoves ops"
proof (induction ops arbitrary: S)
  case Nil
  then show ?case by (simp add: applyOps_def numAdds_def numRemoves_def)
next
  case (Cons x xs)
  have "numRemoves xs \<le> total (pagination (applyOp S x))"
    using Cons.prems numRemoves_nonneg [of xs]
    by (simp add: applyOp_total numRemoves_Cons split: if_splits)
  from Cons.IH [OF this] Cons.prems numRemoves_nonneg [of xs] show ?case
    by (simp add: applyOps_Cons applyOp_total numAdds_Cons numRemoves_Cons split: if_splits)
qed

lemma applyOps_total_ge:
  "total (pagination S) + numAdds ops - numRemoves ops \<le> total (pagination (applyOps S ops))"
proof (induction ops arbitrary: S)
  case Nil
  then show ?case by (simp add: applyOps_def numAdds_def numRemoves_def)
next
  case (Cons x xs)
  from Cons.IH [of "applyOp S x"] show ?case
    by (simp add: applyOps_Cons applyOp_total numAdds_Cons numRemoves_Cons split: if_splits)
qed

text \<open>
  Claim C1, amended. For the paginated shape each \<open>add\<close> increments \<open>pagination.total\<close> by
  1 and each \<open>remove\<close> decrements it, floored at 0 at that step. After a sequence of adds
  and removes from a cache with total \<open>T0\<close>, the total is \<open>T0\<close> plus the number of adds
  minus the number of removes whenever the number of removes is at most \<open>T0\<close> (the floor is
  then never reached), and it is never below that number.
\<close>

theorem total_after_adds_and_removes:
  "total (pagination (PaginatedStrategy_add S item pos)) = total (pagination S) + 1
   \<and> total (pagination (PaginatedStrategy_remove S i idf)) = max 0 (total (pagination S) - 1)
   \<and> (numRemoves ops \<le> total (pagination S0) \<longrightarrow>
        total (pagination (applyOps S0 ops))
          = total (pagination S0) + numAdds ops - numRemoves ops)
   \<and> total (pagination S0) + numAdds ops - numRemoves ops
        \<le> total (pagination (applyOps S0 ops))"
  by (simp add: applyOps_total_exact applyOps_total_ge PaginatedStrategy_add_def
      PaginatedStrategy_remove_def Let_def)

text \<open>
  The formula of claim C1 applies the floor once, to the final difference; the code applies
  it at each remove. From a total of 0, a remove followed by an add gives 1, where the
  formula gives 0.
\<close>

theorem total_formula_counterexample:
  "total (pagination (applyOps (page [] 0) [RemoveOp (JStr ''1'') ''id'', AddOp (todo ''1'') None])) = 1
   \<and> max 0 (total (pagination (page [] 0))
        + numAdds [RemoveOp (JStr ''1'') ''id'', AddOp (todo ''1'') None]
        - numRemoves [RemoveOp (JStr ''1'') ''id'', AddOp (todo ''1'') None]) = 0"
  by (simp add: applyOps_def page_def PaginatedStrategy_add_def PaginatedStrategy_remove_def
      numAdds_def numRemoves_def Let_def)

theorem total_after_adds_and_removes_witness:
  "numRemoves [AddOp (todo ''4'') None, RemoveOp (JStr ''2'') ''id'', RemoveOp (JStr ''9'') ''id'']
     \<le> total (pagination (page [todo ''1'', todo ''2'', todo ''3''] 3))
   \<and> total (pagination (applyOps (page [todo ''1'', todo ''2'', todo ''3''] 3)
        [AddOp (todo ''4'') None, RemoveOp (JStr ''2'') ''id'', RemoveOp (JStr ''9'') ''id'']))
       = 3 + 1 - 2"
proof -
  have h: "numRemoves [AddOp (todo ''4'') None, RemoveOp (JStr ''2'') ''id'', RemoveOp (JStr ''9'') ''id'']
     \<le> total (pagination (page [todo ''1'', todo ''2'', todo ''3''] 3))"
    by (simp add: numRemoves_def page_def)
  have n: "numAdds [AddOp (todo ''4'') None, RemoveOp (JStr ''2'') ''id'', RemoveOp (JStr ''9'') ''id''] = 1"
     "numRemoves [AddOp (todo ''4'') None, RemoveOp (JStr ''2'') ''id'', RemoveOp (JStr ''9'') ''id''] = 2"
     "total (pagination (page [todo ''1'', todo ''2'', todo ''3''] 3)) = 3"
    by (simp_all add: numAdds_def numRemoves_def page_def)
  from h n total_after_adds_and_removes [of "page [] 0" "todo ''4''" None "JStr ''2''" "''id''"
      "[AddOp (todo ''4'') None, RemoveOp (JStr ''2'') ''id'', RemoveOp (JStr ''9'') ''id'']"
      "page [todo ''1'', todo ''2'', todo ''3''] 3"]
  show ?thesis by simp
qed

text \<open>
  Claim C3, amended. For every shape, \<open>remove\<close> with an identity that no element of the
  data has leaves the data unchanged (for the simple list and the array, the whole value).
  For the paginated shape \<open>pagination.total\<close> is decremented by 1 all the same, floored at
  0: it keeps its value only when that value is 0.
\<close>

theorem remove_absent_keeps_data:
  "(\<not> hasIdentity (data P) idf i \<longrightarrow>
      data (PaginatedStrategy_remove P i idf) = data P
      \<and> total (pagination (PaginatedStrategy_remove P i idf)) = max 0 (total (pagination P) - 1)
      \<and> (total (pagination (PaginatedStrategy_remove P i idf)) = total (pagination P)
           \<longleftrightarrow> total (pagination P) = 0))
   \<and> (\<not> hasIdentity (data L) idf i \<longrightarrow> SimpleListStrategy_remove L i idf = L)
   \<and> (\<not> hasIdentity A idf i \<longrightarrow> ArrayStrategy_remove A i idf = A)"
  by (auto simp add: PaginatedStrategy_remove_def SimpleListStrategy_remove_def
      ArrayStrategy_remove_def filter_absent)

text \<open>
  Against claim C3 as stated: a page with a total of 3 and no element of identity 2; after
  the removal of identity 2 the total is 2.
\<close>

theorem remove_absent_counterexample:
  "\<not> hasIdentity (data (page [todo ''1'', todo ''3''] 3)) ''id'' (JStr ''2'')
   \<and> total (pagination (page [todo ''1'', todo ''3''] 3)) = 3
   \<and> total (pagination (PaginatedStrategy_remove (page [todo ''1'', todo ''3''] 3) (JStr ''2'') ''id'')) = 2"
  by (simp add: hasIdentity_def page_def todo_def field_def PaginatedStrategy_remove_def)

theorem remove_absent_keeps_data_witness:
  "\<not> hasIdentity (data (page [todo ''1'', todo ''3''] 3)) ''id'' (JStr ''2'')
   \<and> data (PaginatedStrategy_remove (page [todo ''1'', todo ''3''] 3) (JStr ''2'') ''id'')
       = data (page [todo ''1'', todo ''3''] 3)
   \<and> total (pagination (PaginatedStrategy_remove (page [todo ''1'', todo ''3''] 3) (JStr ''2'') ''id''))
       = max 0 (total (pagination (page [todo ''1'', todo ''3''] 3)) - 1)
   \<and> \<not> hasIdentity (data \<lparr>data = [todo ''1'']\<rparr>) ''id'' (JStr ''2'')
   \<and> SimpleListStrategy_remove \<lparr>data = [todo ''1'']\<rparr> (JStr ''2'') ''id'' = \<lparr>data = [todo ''1'']\<rparr>
   \<and> \<not> hasIdentity [todo ''1''] ''id'' (JStr ''2'')
   \<and> ArrayStrategy_remove [todo ''1''] (JStr ''2'') ''id'' = [todo ''1'']"
proof -
  have h1: "\<not> hasIdentity (data (page [todo ''1'', todo ''3''] 3)) ''id'' (JStr ''2'')"
    by (simp add: hasIdentity_def page_def todo_def field_def)
  have h2: "\<not> hasIdentity (data \<lparr>data = [todo ''1'']\<rparr>) ''id'' (JStr ''2'')"
    by (simp add: hasIdentity_def todo_def field_def)
  have h3: "\<not> hasIdentity [todo ''1''] ''id'' (JStr ''2'')"
    by (simp add: hasIdentity_def todo_def field_def)
  from h1 h2 h3
    remove_absent_keeps_data [of "page [todo ''1'', todo ''3''] 3" "''id''" "JStr ''2''"
      "\<lparr>data = [todo ''1'']\<rparr>" "[todo ''1'']"]
  show ?thesis by blast
qed


section \<open>Properties of the cache managers\<close>



lemma catchFalse_of_throw: "catchFalse (m, Inl e) = (m, Inr False)"
  by (simp add: catchFalse_def)


lemma writeCacheData_fails:
  "\<forall>r. \<exists>e. writeQuery env s (query cfg) (variables cfg) r = Inl e
   \<Longrightarrow> \<exists>e. writeCacheData env cfg s d = Inl e"
  by (simp add: writeCacheData_def Let_def)




lemma executeBody_write_fails:
  assumes "\<forall>r. \<exists>e. writeQuery env (apolloClient m) (query cfg) (variables cfg) r = Inl e"
  shows "catchFalse (executeBody env m op cfg st) = (m, Inr False)"
proof (cases "readCacheData env cfg (apolloClient m)")
  case None
  then show ?thesis by (simp add: executeBody_def catchFalse_def)
next
  case (Some existingData)
  show ?thesis
  proof (cases "operationCall op (idFieldOrDefault cfg)")
    case None
    with Some show ?thesis by (simp add: executeBody_def catchFalse_def)
  next
    case c: (Some c)
    show ?thesis
    proof (cases "invoke env st existingData c")
      case (Inl e)
      with Some c show ?thesis by (simp add: executeBody_def catchFalse_def)
    next
      case (Inr updatedData)
      from writeCacheData_fails [OF assms] obtain e
        where "writeCacheData env cfg (apolloClient m) updatedData = Inl e" by blast
      with Some c Inr show ?thesis by (simp add: executeBody_def catchFalse_def)
    qed
  qed
qed


lemma executeOperation_write_fails:
  assumes "entities m (entityKey op) = Some cfg"
    and "\<forall>r. \<exists>e. writeQuery env (apolloClient m) (query cfg) (variables cfg) r = Inl e"
  shows "executeOperation env m op = (m, Inr False)"
  using assms(1) executeBody_write_fails [OF assms(2)]
  by (simp add: executeOperation_def split: option.splits)








lemma OptimisticCacheManager_executeOperation_write_fails:
  assumes "\<forall>r. \<exists>e. writeQuery env (cache om) (query (config om)) (variables (config om)) r = Inl e"
  shows "OptimisticCacheManager_executeOperation env om cop = (om, Inr False)"
proof (cases "readCacheData env (config om) (cache om)")
  case None
  then show ?thesis
    by (simp add: OptimisticCacheManager_executeOperation_def catchFalse_def)
next
  case (Some existingData)
  show ?thesis
  proof (cases "invoke env (strategy om) existingData
      (applyOperation cop (idFieldOrDefault (config om)))")
    case (Inl e)
    with Some show ?thesis
      by (simp add: OptimisticCacheManager_executeOperation_def catchFalse_def)
  next
    case (Inr updatedData)
    from writeCacheData_fails [OF assms] obtain e
      where "writeCacheData env (config om) (cache om) updatedData = Inl e" by blast
    with Some Inr show ?thesis
      by (simp add: OptimisticCacheManager_executeOperation_def catchFalse_def)
  qed
qed



lemma sample_entities: "entities sampleManager ''todos'' = Some todosConfig"
  "entities sampleManager ''users'' = None"
  by (simp_all add: sampleManager_def)

lemma sample_keys: "entityKey usersOperation = ''users''"
  "entityKey (addOperation e) = ''todos''" "entityKey (removeOperation i) = ''todos''"
  by (simp_all add: usersOperation_def addOperation_def removeOperation_def)

subsection \<open>Eviction on remove\<close>

lemma sampleManager_registered:
  "registerEntity (newEntityCacheManager sampleStore) ''todos'' todosConfig = (sampleManager, Inr ())"
  by (simp add: registerEntity_def newEntityCacheManager_def sampleManager_def todosConfig_def
      Let_def)

lemma sampleItemManager_constructed:
  "newOptimisticCacheManager sampleStore todosConfig = Inr sampleItemManager"
  by (simp add: newOptimisticCacheManager_def sampleItemManager_def todosConfig_def)

lemma sample_read:
  "readCacheData storeApollo todosConfig sampleStore = Some (Paginated (page [todoN 0, todoN 1] 2))"
  by (simp add: readCacheData_def storeApollo_def todosConfig_def sampleStore_def)

lemma sample_remove:
  "PaginatedStrategy_remove (page [todoN 0, todoN 1] 2) (JNum 0) ''id'' = page [todoN 1] 1"
  "PaginatedStrategy_remove (page [todoN 0, todoN 1] 2) (JNum 1) ''id'' = page [todoN 0] 1"
  by (simp_all add: PaginatedStrategy_remove_def page_def todoN_def field_def)

lemma sample_identify:
  "storeIdentify (identityObject ''Todo'' ''id'' (JNum 0)) = Some ''Todo:0''"
  "storeIdentify (identityObject ''Todo'' ''id'' (JNum 1)) = Some ''Todo:1''"
  by (simp_all add: storeIdentify_def identityObject_def decimalInt_def)

lemma executeOperation_path:
  assumes "entities m (entityKey op) = Some cfg"
    and "strategies m (entityKey op) = Some st"
    and "readCacheData env cfg (apolloClient m) = Some d"
    and "operationCall op (idFieldOrDefault cfg) = Some c"
    and "invoke env st d c = Inr d'"
    and "writeCacheData env cfg (apolloClient m) d' = Inr sw"
    and "evictRemoved env cfg op sw = (se, Inr ())"
  shows "executeOperation env m op = (m\<lparr>apolloClient := se\<rparr>, Inr True)"
  using assms by (simp add: executeOperation_def executeBody_def catchFalse_def)

lemma OptimisticCacheManager_executeOperation_path:
  assumes "readCacheData env (config om) (cache om) = Some d"
    and "invoke env (strategy om) d (applyOperation cop (idFieldOrDefault (config om))) = Inr d'"
    and "writeCacheData env (config om) (cache om) d' = Inr sw"
    and "evictRemovedItem env (config om) cop sw = (se, Inr ())"
  shows "OptimisticCacheManager_executeOperation env om cop = (om\<lparr>cache := se\<rparr>, Inr True)"
  using assms by (simp add: OptimisticCacheManager_executeOperation_def catchFalse_def)

lemma sample_strategies: "strategies sampleManager ''todos'' = Some PaginatedStrategy"
  by (simp add: sampleManager_def)

lemma sample_config: "idFieldOrDefault todosConfig = ''id''" "entityName todosConfig = Some ''Todo''"
  "queryResultKey todosConfig = Some ''todos''" "query todosConfig = ''GetTodos''"
  "config sampleItemManager = todosConfig" "cache sampleItemManager = sampleStore"
  "strategy sampleItemManager = PaginatedStrategy" "apolloClient sampleManager = sampleStore"
  by (simp_all add: idFieldOrDefault_def todosConfig_def sampleItemManager_def sampleManager_def)

lemma sample_call:
  "operationCall (removeOperation i) idf = (if i = JUndefined then None else Some (CallRemove i idf))"
  by (simp add: operationCall_def removeOperation_def REMOVE_def ADD_def UPDATE_def)

lemma sample_invoke:
  "invoke storeApollo PaginatedStrategy (Paginated (page [todoN 0, todoN 1] 2)) (CallRemove (JNum 0) ''id'')
     = Inr (Paginated (page [todoN 1] 1))"
  "invoke storeApollo PaginatedStrategy (Paginated (page [todoN 0, todoN 1] 2)) (CallRemove (JNum 1) ''id'')
     = Inr (Paginated (page [todoN 0] 1))"
  by (simp_all add: invoke_def sample_remove)

lemma sample_write:
  "writeCacheData storeApollo todosConfig sampleStore d
     = Inr (sampleStore\<lparr>queries := [''GetTodos'' \<mapsto> Fields [''todos'' \<mapsto> d]]\<rparr>)"
  by (simp add: writeCacheData_def storeApollo_def todosConfig_def sampleStore_def)

lemma sample_evict_zero:
  "evictRemoved storeApollo todosConfig (removeOperation (JNum 0)) s = (s, Inr ())"
  by (simp add: evictRemoved_def removeOperation_def)

lemma sample_evict_one:
  "evictRemoved storeApollo todosConfig (removeOperation (JNum 1)) s
     = (s\<lparr>records := (records s)(''Todo:1'' := None)\<rparr>, Inr ())"
  by (simp add: evictRemoved_def removeOperation_def REMOVE_def sample_config sample_identify
      storeApollo_def)

lemma sample_evict_item:
  "evictRemovedItem storeApollo todosConfig (Remove (JNum 0)) s
     = (s\<lparr>records := (records s)(''Todo:0'' := None)\<rparr>, Inr ())"
  by (simp add: sample_config sample_identify storeApollo_def)

text \<open>
  Claim C5 says that every successful remove with an entity type name configured evicts the
  normalized record of the removed identity. \<^verbatim>\<open>EntityCacheManager\<close> tests the removed id
  for truthiness before it evicts, so the removal of the identity 0 succeeds, filters the
  entity out of the cached list and leaves the record \<^verbatim>\<open>Todo:0\<close> in the store, although
  \<open>identify\<close> resolves it. The same manager evicts for the identity 1, and
  \<^verbatim>\<open>OptimisticCacheManager\<close>, which has no such test, evicts for the identity 0.
\<close>

theorem remove_id_zero_not_evicted:
  "registerEntity (newEntityCacheManager sampleStore) ''todos'' todosConfig = (sampleManager, Inr ())
   \<and> snd (executeOperation storeApollo sampleManager (removeOperation (JNum 0))) = Inr True
   \<and> queries (apolloClient (fst (executeOperation storeApollo sampleManager (removeOperation (JNum 0)))))
        ''GetTodos'' = Some (Fields [''todos'' \<mapsto> Paginated (page [todoN 1] 1)])
   \<and> identify storeApollo sampleStore (identityObject ''Todo'' ''id'' (JNum 0)) = Inr (Some ''Todo:0'')
   \<and> records (apolloClient (fst (executeOperation storeApollo sampleManager (removeOperation (JNum 0)))))
        ''Todo:0'' = Some (todoN 0)
   \<and> records (apolloClient (fst (executeOperation storeApollo sampleManager (removeOperation (JNum 1)))))
        ''Todo:1'' = None
   \<and> newOptimisticCacheManager sampleStore todosConfig = Inr sampleItemManager
   \<and> snd (OptimisticCacheManager_executeOperation storeApollo sampleItemManager (Remove (JNum 0)))
        = Inr True
   \<and> records (cache (fst (OptimisticCacheManager_executeOperation storeApollo sampleItemManager
        (Remove (JNum 0))))) ''Todo:0'' = None"
proof -
  have e0: "executeOperation storeApollo sampleManager (removeOperation (JNum 0))
      = (sampleManager\<lparr>apolloClient :=
           sampleStore\<lparr>queries := [''GetTodos'' \<mapsto> Fields [''todos'' \<mapsto> Paginated (page [todoN 1] 1)]]\<rparr>\<rparr>,
         Inr True)"
    by (rule executeOperation_path [where cfg = todosConfig and st = PaginatedStrategy
          and d = "Paginated (page [todoN 0, todoN 1] 2)" and c = "CallRemove (JNum 0) ''id''"
          and d' = "Paginated (page [todoN 1] 1)"])
      (simp_all add: sample_entities sample_keys sample_strategies sample_config sample_read
        sample_call sample_invoke sample_write sample_evict_zero)
  have e1: "executeOperation storeApollo sampleManager (removeOperation (JNum 1))
      = (sampleManager\<lparr>apolloClient :=
           sampleStore\<lparr>queries := [''GetTodos'' \<mapsto> Fields [''todos'' \<mapsto> Paginated (page [todoN 0] 1)]],
             records := (records sampleStore)(''Todo:1'' := None)\<rparr>\<rparr>,
         Inr True)"
    by (rule executeOperation_path [where cfg = todosConfig and st = PaginatedStrategy
          and d = "Paginated (page [todoN 0, todoN 1] 2)" and c = "CallRemove (JNum 1) ''id''"
          and d' = "Paginated (page [todoN 0] 1)"
          and sw = "sampleStore\<lparr>queries := [''GetTodos'' \<mapsto> Fields [''todos'' \<mapsto> Paginated (page [todoN 0] 1)]]\<rparr>"])
      (simp_all add: sample_entities sample_keys sample_strategies sample_config sample_read
        sample_call sample_invoke sample_write sample_evict_one)
  have o0: "OptimisticCacheManager_executeOperation storeApollo sampleItemManager (Remove (JNum 0))
      = (sampleItemManager\<lparr>cache :=
           sampleStore\<lparr>queries := [''GetTodos'' \<mapsto> Fields [''todos'' \<mapsto> Paginated (page [todoN 1] 1)]],
             records := (records sampleStore)(''Todo:0'' := None)\<rparr>\<rparr>,
         Inr True)"
    by (rule OptimisticCacheManager_executeOperation_path
          [where d = "Paginated (page [todoN 0, todoN 1] 2)"
          and d' = "Paginated (page [todoN 1] 1)"
          and sw = "sampleStore\<lparr>queries := [''GetTodos'' \<mapsto> Fields [''todos'' \<mapsto> Paginated (page [todoN 1] 1)]]\<rparr>"])
      (simp_all add: sample_config sample_read sample_invoke sample_write sample_evict_item
        del: evictRemovedItem.simps)
  have i0: "identify storeApollo sampleStore (identityObject ''Todo'' ''id'' (JNum 0)) = Inr (Some ''Todo:0'')"
    by (simp add: storeApollo_def sample_identify)
  have r0: "records sampleStore ''Todo:0'' = Some (todoN 0)"
    by (simp add: sampleStore_def)
  from e0 e1 o0 i0 r0 sampleManager_registered sampleItemManager_constructed
  show ?thesis by simp
qed


lemma evictRemoved_evicts:
  assumes "evictRemoved env cfg op sw = (se, Inr ())"
    and "type op = REMOVE" and "nonEmpty (entityName cfg)" and "truthy (ident op)"
  shows "\<exists>cacheId.
      identify env sw (identityObject (the (entityName cfg)) (idFieldOrDefault cfg) (ident op))
        = Inr cacheId
      \<and> (if nonEmpty cacheId then evict env sw (the cacheId) = Inr se else se = sw)"
  using assms by (auto simp: evictRemoved_def split: sum.splits if_splits)

text \<open>
  With a type name configured and a truthy removed id, a successful remove of
  \<^verbatim>\<open>EntityCacheManager\<close> has asked \<open>identify\<close> for the cache id on the store after the write
  and, when that id is not empty, the final store is the result of \<open>evict\<close> on it.
\<close>

lemma executeOperation_remove_evicts:
  assumes "executeOperation env m op = (m', Inr True)"
    and "entities m (entityKey op) = Some cfg"
    and "type op = REMOVE" and "nonEmpty (entityName cfg)" and "truthy (ident op)"
  shows "\<exists>d sw cacheId.
      writeCacheData env cfg (apolloClient m) d = Inr sw
      \<and> identify env sw (identityObject (the (entityName cfg)) (idFieldOrDefault cfg) (ident op))
          = Inr cacheId
      \<and> (if nonEmpty cacheId then evict env sw (the cacheId) = Inr (apolloClient m')
          else apolloClient m' = sw)"
proof -
  from assms(1,2) obtain st where st: "strategies m (entityKey op) = Some st"
    and body: "catchFalse (executeBody env m op cfg st) = (m', Inr True)"
    by (auto simp: executeOperation_def split: option.splits)
  from body obtain d sw se where w: "writeCacheData env cfg (apolloClient m) d = Inr sw"
    and ev: "evictRemoved env cfg op sw = (se, Inr ())" and m': "m' = m\<lparr>apolloClient := se\<rparr>"
    by (auto simp: executeBody_def catchFalse_def split: option.splits sum.splits prod.splits)
  from evictRemoved_evicts [OF ev assms(3,4,5)] obtain cacheId
    where c: "identify env sw
        (identityObject (the (entityName cfg)) (idFieldOrDefault cfg) (ident op)) = Inr cacheId"
      "if nonEmpty cacheId then evict env sw (the cacheId) = Inr se else se = sw"
    by blast
  have "apolloClient m' = se" using m' by simp
  with w c show ?thesis by metis
qed

subsection \<open>Totality and failures\<close>

























lemma sample_add_call:
  "operationCall (addOperation e) idf = Some (CallAdd e None)"
  by (simp add: operationCall_def addOperation_def)



subsection \<open>Registration with an unsupported data structure\<close>

lemma registerEntity_unsupported:
  assumes "dataStructure cfg \<noteq> PAGINATED" and "dataStructure cfg \<noteq> SIMPLE_LIST"
    and "dataStructure cfg \<noteq> ARRAY"
  shows "registerEntity m key cfg
     = (m\<lparr>entities := (entities m)(key \<mapsto> cfg)\<rparr>, Inl (UnsupportedDataStructure (dataStructure cfg)))"
  using assms by (simp add: registerEntity_def Let_def)

text \<open>
  Claim C10, amended. \<open>registerEntity\<close> with a data structure that is none of the three
  throws after it has stored the configuration. If no strategy was bound to the key
  before, the key is then registered with the configuration and without a strategy: an
  \<open>executeOperation\<close> for the key returns \<open>False\<close> at the strategy lookup and changes
  nothing, while \<open>getCachedData\<close> reads the cache with the stored configuration and
  returns what it finds.
\<close>

theorem failed_registration_of_fresh_key:
  "dataStructure cfg \<noteq> PAGINATED \<and> dataStructure cfg \<noteq> SIMPLE_LIST
     \<and> dataStructure cfg \<noteq> ARRAY \<and> strategies m key = None \<and> entityKey op = key
   \<longrightarrow> snd (registerEntity m key cfg) = Inl (UnsupportedDataStructure (dataStructure cfg))
     \<and> entities (fst (registerEntity m key cfg)) key = Some cfg
     \<and> strategies (fst (registerEntity m key cfg)) key = None
     \<and> apolloClient (fst (registerEntity m key cfg)) = apolloClient m
     \<and> executeOperation env (fst (registerEntity m key cfg)) op
         = (fst (registerEntity m key cfg), Inr False)
     \<and> getCachedData env (fst (registerEntity m key cfg)) key
         = (fst (registerEntity m key cfg), Inr (readCacheData env cfg (apolloClient m)))"
  by (simp add: registerEntity_unsupported executeOperation_def getCachedData_def)

lemma gridConfig_unsupported:
  "dataStructure gridConfig \<noteq> PAGINATED" "dataStructure gridConfig \<noteq> SIMPLE_LIST"
  "dataStructure gridConfig \<noteq> ARRAY" "dataStructure gridConfig = ''grid''"
  by (simp_all add: gridConfig_def PAGINATED_def SIMPLE_LIST_def ARRAY_def)

lemma gridConfig_read:
  "readCacheData storeApollo gridConfig sampleStore = Some (Paginated (page [todoN 0, todoN 1] 2))"
  by (simp add: readCacheData_def storeApollo_def gridConfig_def todosConfig_def sampleStore_def)


theorem failed_registration_of_fresh_key_witness:
  "dataStructure gridConfig \<noteq> PAGINATED \<and> dataStructure gridConfig \<noteq> SIMPLE_LIST
   \<and> dataStructure gridConfig \<noteq> ARRAY
   \<and> strategies (newEntityCacheManager sampleStore) ''todos'' = None
   \<and> entityKey (addOperation (todoN 7)) = ''todos''
   \<and> snd (registerEntity (newEntityCacheManager sampleStore) ''todos'' gridConfig)
       = Inl (UnsupportedDataStructure ''grid'')
   \<and> entities (fst (registerEntity (newEntityCacheManager sampleStore) ''todos'' gridConfig)) ''todos''
       = Some gridConfig
   \<and> strategies (fst (registerEntity (newEntityCacheManager sampleStore) ''todos'' gridConfig)) ''todos''
       = None
   \<and> snd (executeOperation storeApollo
        (fst (registerEntity (newEntityCacheManager sampleStore) ''todos'' gridConfig))
        (addOperation (todoN 7))) = Inr False
   \<and> snd (getCachedData storeApollo
        (fst (registerEntity (newEntityCacheManager sampleStore) ''todos'' gridConfig)) ''todos'')
       = Inr (Some (Paginated (page [todoN 0, todoN 1] 2)))"
proof -
  have h: "strategies (newEntityCacheManager sampleStore) ''todos'' = None"
    "apolloClient (newEntityCacheManager sampleStore) = sampleStore"
    by (simp_all add: newEntityCacheManager_def)
  from h gridConfig_unsupported gridConfig_read sample_keys
    failed_registration_of_fresh_key [of gridConfig "newEntityCacheManager sampleStore" "''todos''"
      "addOperation (todoN 7)" storeApollo]
  show ?thesis by simp
qed

lemma gridConfig_fields: "idFieldOrDefault gridConfig = ''id''"
  "queryResultKey gridConfig = Some ''todos''" "query gridConfig = ''GetTodos''"
  "variables gridConfig = None"
  by (simp_all add: gridConfig_def todosConfig_def idFieldOrDefault_def)

lemma addOperation_no_eviction: "evictRemoved env cfg (addOperation e) s = (s, Inr ())"
  by (simp add: evictRemoved_def addOperation_def ADD_def REMOVE_def)

lemma sample_add_page:
  "invoke storeApollo PaginatedStrategy (Paginated (page [todoN 0, todoN 1] 2)) (CallAdd (todoN 7) None)
     = Inr (Paginated (page [todoN 7, todoN 0, todoN 1] 3))"
  by (simp add: invoke_def PaginatedStrategy_add_def page_def positionOrDefault_def)

lemma gridConfig_write:
  "writeCacheData storeApollo gridConfig sampleStore d
     = Inr (sampleStore\<lparr>queries := [''GetTodos'' \<mapsto> Fields [''todos'' \<mapsto> d]]\<rparr>)"
  by (simp add: writeCacheData_def gridConfig_fields storeApollo_def sampleStore_def)

lemma failed_manager:
  "registerEntity sampleManager ''todos'' gridConfig
     = (sampleManager\<lparr>entities := [''todos'' \<mapsto> gridConfig]\<rparr>,
        Inl (UnsupportedDataStructure ''grid''))"
  by (simp add: registerEntity_unsupported [OF gridConfig_unsupported(1,2,3)]
      gridConfig_unsupported(4) sampleManager_def)

lemma sample_add:
  "executeOperation storeApollo (sampleManager\<lparr>entities := [''todos'' \<mapsto> gridConfig]\<rparr>)
     (addOperation (todoN 7))
   = (sampleManager\<lparr>entities := [''todos'' \<mapsto> gridConfig],
        apolloClient := sampleStore\<lparr>queries :=
          [''GetTodos'' \<mapsto> Fields [''todos'' \<mapsto> Paginated (page [todoN 7, todoN 0, todoN 1] 3)]]\<rparr>\<rparr>,
      Inr True)"
  by (rule executeOperation_path [where cfg = gridConfig and st = PaginatedStrategy
        and d = "Paginated (page [todoN 0, todoN 1] 2)" and c = "CallAdd (todoN 7) None"
        and d' = "Paginated (page [todoN 7, todoN 0, todoN 1] 3)"
        and sw = "sampleStore\<lparr>queries :=
          [''GetTodos'' \<mapsto> Fields [''todos'' \<mapsto> Paginated (page [todoN 7, todoN 0, todoN 1] 3)]]\<rparr>"])
    (simp_all add: sample_keys sample_strategies sample_config gridConfig_read gridConfig_fields
      sample_add_call sample_add_page gridConfig_write addOperation_no_eviction)

text \<open>
  Against claim C10 as stated: the key was registered before as a paginated list. The
  failed registration replaces the configuration and leaves the earlier strategy bound,
  and the next \<open>executeOperation\<close> passes the strategy lookup, writes and returns \<open>True\<close>.
\<close>

theorem failed_registration_counterexample:
  "registerEntity (newEntityCacheManager sampleStore) ''todos'' todosConfig = (sampleManager, Inr ())
   \<and> snd (registerEntity sampleManager ''todos'' gridConfig) = Inl (UnsupportedDataStructure ''grid'')
   \<and> entities (fst (registerEntity sampleManager ''todos'' gridConfig)) ''todos'' = Some gridConfig
   \<and> strategies (fst (registerEntity sampleManager ''todos'' gridConfig)) ''todos''
       = Some PaginatedStrategy
   \<and> snd (executeOperation storeApollo (fst (registerEntity sampleManager ''todos'' gridConfig))
        (addOperation (todoN 7))) = Inr True"
  by (simp add: sampleManager_registered failed_manager sample_add sample_strategies)


end
